theory Spec2Isabelle
  imports Main "HOL-Library.Sublist"
begin

section \<open>Python text: characters, strings, formatting\<close>

text \<open>
  A Python \<open>str\<close> is a sequence of Unicode code points, so a character is a natural
  number and a string a list of them. The bytes of a file are Isabelle's 8-bit
  \<open>char\<close>s; \<open>py_str\<close> reads an ASCII literal as a Python string.
\<close>

type_synonym pychar = nat
type_synonym pystr = "pychar list"

definition py_str :: "string \<Rightarrow> pystr" where
  "py_str s = map of_char s"

definition LF :: pychar where "LF = 10"
definition CR :: pychar where "CR = 13"
definition lbrace :: pychar where "lbrace = 123"
definition rbrace :: pychar where "rbrace = 125"

text \<open>\<open>str.strip()\<close> removes the characters Python counts as whitespace at both ends.\<close>

definition py_isspace :: "pychar \<Rightarrow> bool" where
  "py_isspace c =
     ((9 \<le> c \<and> c \<le> 13) \<or> (28 \<le> c \<and> c \<le> 32) \<or> c = 133 \<or> c = 160 \<or> c = 5760 \<or>
      (8192 \<le> c \<and> c \<le> 8202) \<or> c = 8232 \<or> c = 8233 \<or> c = 8239 \<or> c = 8287 \<or>
      c = 12288)"

definition strip :: "pystr \<Rightarrow> pystr" where
  "strip s = rev (dropWhile py_isspace (rev (dropWhile py_isspace s)))"

text \<open>\<open>str(n)\<close> and the format \<open>{n:+d}\<close> of an integer.\<close>

fun digits :: "nat \<Rightarrow> pystr" where
  "digits n = (if n < 10 then [48 + n] else digits (n div 10) @ [48 + n mod 10])"

declare digits.simps [simp del]

definition str_int :: "int \<Rightarrow> pystr" where
  "str_int n = (if n < 0 then 45 # digits (nat (- n)) else digits (nat n))"

definition fmt_plus_d :: "int \<Rightarrow> pystr" where
  "fmt_plus_d n = (if n < 0 then 45 # digits (nat (- n)) else 43 # digits (nat n))"

section \<open>Reading the file\<close>

text \<open>
  Both scripts start with
  \<^verbatim>\<open>with open('VoiceAssistant/Core ML Testing/MLTestingFramework.swift', 'r') as f:
    lines = f.readlines()\<close>
  \<open>open\<close> raises an \<open>OSError\<close> with the error number of the system when the path cannot
  be opened (\<open>FileNotFoundError\<close> is the one with \<open>ENOENT\<close>, \<open>PermissionError\<close> the one
  with \<open>EACCES\<close>). \<open>readlines\<close> reads the bytes, which can fail with an \<open>OSError\<close> too,
  decodes them with the codec of the locale (a parameter \<open>dec\<close> here, \<open>utf8_decode\<close>
  below being the usual one) and raises \<open>UnicodeDecodeError\<close> when they are not valid; in
  text mode every \<open>\r\n\<close> and every lone \<open>\r\<close> becomes \<open>\n\<close>, and each line keeps its
  final \<open>\n\<close>.
\<close>

type_synonym errno = nat

definition ENOENT :: errno where "ENOENT = 2"
definition EIO :: errno where "EIO = 5"
definition EACCES :: errno where "EACCES = 13"
definition EPIPE :: errno where "EPIPE = 32"

datatype py_exception = OSError errno | UnicodeDecodeError | UnicodeEncodeError

fun is_OSError :: "py_exception \<Rightarrow> bool" where
  "is_OSError (OSError e) = True"
| "is_OSError UnicodeDecodeError = False"
| "is_OSError UnicodeEncodeError = False"

text \<open>
  What the file system holds at a path: the error number \<open>open\<close> fails with, or a file
  that opens, whose reading fails with an error number or gives the bytes.
\<close>

datatype file_content = Read_fails errno | Bytes string

type_synonym filesystem = "string \<Rightarrow> errno + file_content"

definition path :: string where
  "path = ''VoiceAssistant/Core ML Testing/MLTestingFramework.swift''"

definition open_r :: "filesystem \<Rightarrow> string \<Rightarrow> py_exception + file_content" where
  "open_r fs p =
     (case fs p of
        Inl e \<Rightarrow> Inl (OSError e)
      | Inr f \<Rightarrow> Inr f)"

definition read_all :: "file_content \<Rightarrow> py_exception + string" where
  "read_all f =
     (case f of
        Read_fails e \<Rightarrow> Inl (OSError e)
      | Bytes bytes \<Rightarrow> Inr bytes)"

fun universal_newlines :: "pystr \<Rightarrow> pystr" where
  "universal_newlines [] = []"
| "universal_newlines [c] = (if c = CR then [LF] else [c])"
| "universal_newlines (c # d # ds) =
     (if c = CR \<and> d = LF then LF # universal_newlines ds
      else if c = CR then LF # universal_newlines (d # ds)
      else c # universal_newlines (d # ds))"

fun split_lines :: "pystr \<Rightarrow> pystr \<Rightarrow> pystr list" where
  "split_lines cur [] = (if cur = [] then [] else [cur])"
| "split_lines cur (c # cs) =
     (if c = LF then (cur @ [c]) # split_lines [] cs else split_lines (cur @ [c]) cs)"

definition text_lines :: "pystr \<Rightarrow> pystr list" where
  "text_lines txt = split_lines [] (universal_newlines txt)"

definition readlines :: "(string \<Rightarrow> pystr option) \<Rightarrow> string \<Rightarrow> py_exception + pystr list" where
  "readlines dec bytes =
     (case dec bytes of
        None \<Rightarrow> Inl UnicodeDecodeError
      | Some txt \<Rightarrow> Inr (text_lines txt))"

text \<open>The strict UTF-8 codec: the well-formed byte sequences of the Unicode standard.\<close>

definition cont :: "nat \<Rightarrow> bool" where
  "cont b = (128 \<le> b \<and> b \<le> 191)"

fun utf8_points :: "nat list \<Rightarrow> pystr option" where
  "utf8_points [] = Some []"
| "utf8_points (b0 # bs) =
     (if b0 < 128 then map_option ((#) b0) (utf8_points bs)
      else if 194 \<le> b0 \<and> b0 \<le> 223 then
        (case bs of
           b1 # r \<Rightarrow>
             if cont b1
             then map_option ((#) ((b0 - 192) * 64 + (b1 - 128))) (utf8_points r)
             else None
         | _ \<Rightarrow> None)
      else if 224 \<le> b0 \<and> b0 \<le> 239 then
        (case bs of
           b1 # b2 # r \<Rightarrow>
             if cont b1 \<and> cont b2 \<and>
                (if b0 = 224 then 160 \<le> b1 else if b0 = 237 then b1 \<le> 159 else True)
             then map_option ((#) ((b0 - 224) * 4096 + (b1 - 128) * 64 + (b2 - 128)))
                    (utf8_points r)
             else None
         | _ \<Rightarrow> None)
      else if 240 \<le> b0 \<and> b0 \<le> 244 then
        (case bs of
           b1 # b2 # b3 # r \<Rightarrow>
             if cont b1 \<and> cont b2 \<and> cont b3 \<and>
                (if b0 = 240 then 144 \<le> b1 else if b0 = 244 then b1 \<le> 143 else True)
             then map_option
                    ((#) ((b0 - 240) * 262144 + (b1 - 128) * 4096 + (b2 - 128) * 64 + (b3 - 128)))
                    (utf8_points r)
             else None
         | _ \<Rightarrow> None)
      else None)"

definition utf8_decode :: "string \<Rightarrow> pystr option" where
  "utf8_decode bytes = utf8_points (map of_char bytes)"

section \<open>Printing\<close>

text \<open>
  Standard output is the list of the strings printed so far, one for each call of
  \<open>print\<close> that returned. A call of \<open>print\<close> can raise: \<open>UnicodeEncodeError\<close> when the
  codec of standard output has no bytes for the string, an \<open>OSError\<close> when the stream
  does not take them. The device \<open>wr\<close> says, from what was printed so far and the string,
  which exception the call raises, if any; the string is then not printed.
\<close>

type_synonym stdout_dev = "pystr list \<Rightarrow> pystr \<Rightarrow> py_exception option"

definition py_print :: "stdout_dev \<Rightarrow> pystr list \<Rightarrow> pystr \<Rightarrow> py_exception + pystr list" where
  "py_print wr out s =
     (case wr out s of
        Some e \<Rightarrow> Inl e
      | None \<Rightarrow> Inr (out @ [s]))"

section \<open>Variant A: \<open>debug_braces.py\<close>\<close>

text \<open>
  The scan keeps \<open>brace_count\<close> and the list \<open>line_braces\<close> of change records
  \<open>(i, line_brace_change, brace_count, line.strip())\<close>.
\<close>

type_synonym change_record = "nat \<times> int \<times> int \<times> pystr"

record counter =
  brace_count :: int

record state_A = counter +
  line_braces :: "change_record list"

definition init_A :: state_A where
  "init_A = \<lparr>brace_count = 0, line_braces = []\<rparr>"

text \<open>The inner loop \<open>for char in line\<close>, on the pair \<open>(brace_count, line_brace_change)\<close>.\<close>

fun count_chars_A :: "pystr \<Rightarrow> int \<times> int \<Rightarrow> int \<times> int" where
  "count_chars_A [] (bc, line_brace_change) = (bc, line_brace_change)"
| "count_chars_A (c # cs) (bc, line_brace_change) =
     (if c = lbrace then count_chars_A cs (bc + 1, line_brace_change + 1)
      else if c = rbrace then count_chars_A cs (bc - 1, line_brace_change - 1)
      else count_chars_A cs (bc, line_brace_change))"

text \<open>One iteration of \<open>for i, line in enumerate(lines, 1)\<close>, and the loop.\<close>

definition body_A :: "nat \<Rightarrow> pystr \<Rightarrow> state_A \<Rightarrow> state_A" where
  "body_A i line st =
     (case count_chars_A line (brace_count st, 0) of
        (bc, line_brace_change) \<Rightarrow>
          if line_brace_change \<noteq> 0
          then st\<lparr>brace_count := bc,
                  line_braces := line_braces st @ [(i, line_brace_change, bc, strip line)]\<rparr>
          else st\<lparr>brace_count := bc\<rparr>)"

fun scan_A :: "nat \<Rightarrow> pystr list \<Rightarrow> state_A \<Rightarrow> state_A" where
  "scan_A i [] st = st"
| "scan_A i (line # rest) st = scan_A (Suc i) rest (body_A i line st)"

text \<open>The states after each iteration of the loop, in order.\<close>

fun states_A :: "nat \<Rightarrow> pystr list \<Rightarrow> state_A \<Rightarrow> state_A list" where
  "states_A i [] st = []"
| "states_A i (line # rest) st = body_A i line st # states_A (Suc i) rest (body_A i line st)"

text \<open>
  Standard output is the list of the strings printed, one for each call of \<open>print\<close>.
  The second loop prints the records from line 1200 on and leaves at the first record
  from line 1280 on.
\<close>

definition fmt_record_A :: "change_record \<Rightarrow> pystr" where
  "fmt_record_A r =
     (case r of (line_num, change, tot, content) \<Rightarrow>
        py_str ''Line '' @ digits line_num @ py_str '': '' @ fmt_plus_d change @
        py_str '' (total: '' @ str_int tot @ py_str '') - '' @ take 80 content)"

fun print_A :: "change_record list \<Rightarrow> pystr list \<Rightarrow> pystr list" where
  "print_A [] out = out"
| "print_A ((line_num, change, tot, content) # rest) out =
     (let out' = (if line_num \<ge> 1200
                  then out @ [fmt_record_A (line_num, change, tot, content)] else out)
      in if line_num \<ge> 1280 then out' else print_A rest out')"

definition final_message_A :: "int \<Rightarrow> pystr" where
  "final_message_A bc = py_str ''Final brace count at line 1280: '' @ str_int bc"

definition main_A :: "pystr list \<Rightarrow> pystr list" where
  "main_A lines =
     (let st = scan_A 1 lines init_A;
          out = print_A (line_braces st)
                  [py_str ''Lines with brace changes around the problematic area:'']
      in out @ [final_message_A (brace_count st)])"

text \<open>
  The whole script, with the calls of \<open>print\<close> where the source has them: what was
  printed, and the exception that ended the script, if any. The first loop prints
  nothing, so it is \<open>scan_A\<close> as it stands; the second loop is \<open>print_A\<close> with a \<open>print\<close>
  that can raise.
\<close>

fun print_A_io ::
    "stdout_dev \<Rightarrow> change_record list \<Rightarrow> pystr list \<Rightarrow> pystr list \<times> py_exception option" where
  "print_A_io wr [] out = (out, None)"
| "print_A_io wr ((line_num, change, tot, content) # rest) out =
     (if line_num \<ge> 1200
      then (case py_print wr out (fmt_record_A (line_num, change, tot, content)) of
              Inl e \<Rightarrow> (out, Some e)
            | Inr out' \<Rightarrow> if line_num \<ge> 1280 then (out', None) else print_A_io wr rest out')
      else if line_num \<ge> 1280 then (out, None) else print_A_io wr rest out)"

definition script_A ::
    "(string \<Rightarrow> pystr option) \<Rightarrow> stdout_dev \<Rightarrow> filesystem \<Rightarrow>
     pystr list \<times> py_exception option" where
  "script_A dec wr fs =
     (case open_r fs path of
        Inl e \<Rightarrow> ([], Some e)
      | Inr f \<Rightarrow>
     (case read_all f of
        Inl e \<Rightarrow> ([], Some e)
      | Inr bytes \<Rightarrow>
     (case readlines dec bytes of
        Inl e \<Rightarrow> ([], Some e)
      | Inr lines \<Rightarrow>
     (let st = scan_A 1 lines init_A
      in case py_print wr [] (py_str ''Lines with brace changes around the problematic area:'') of
           Inl e \<Rightarrow> ([], Some e)
         | Inr out \<Rightarrow>
        (case print_A_io wr (line_braces st) out of
           (out', Some e) \<Rightarrow> (out', Some e)
         | (out', None) \<Rightarrow>
        (case py_print wr out' (final_message_A (brace_count st)) of
           Inl e \<Rightarrow> (out', Some e)
         | Inr out'' \<Rightarrow> (out'', None)))))))"

section \<open>Variant B: \<open>debug_braces_full.py\<close>\<close>

definition expected_class_level :: int where
  "expected_class_level = 1"

record state_B = counter +
  printed :: "pystr list"

definition init_B :: state_B where
  "init_B = \<lparr>brace_count = 0, printed = [py_str ''Tracking brace imbalances:'']\<rparr>"

text \<open>The inner loop \<open>for char in line\<close>, on \<open>brace_count\<close>.\<close>

fun count_chars_B :: "pystr \<Rightarrow> int \<Rightarrow> int" where
  "count_chars_B [] bc = bc"
| "count_chars_B (c # cs) bc =
     (if c = lbrace then count_chars_B cs (bc + 1)
      else if c = rbrace then count_chars_B cs (bc - 1)
      else count_chars_B cs bc)"

text \<open>The annotation \<open>suspicious\<close> of a printed line.\<close>

definition suspicious :: "int \<Rightarrow> pystr \<Rightarrow> int \<Rightarrow> pystr" where
  "suspicious bc line change =
     (if bc > expected_class_level + 1 \<and> sublist (py_str ''func '') line \<and> change > 0
      then py_str '' [SUSPICIOUS: function starts at wrong level]''
      else if bc < expected_class_level \<and> \<not> sublist (py_str ''func '') line
      then py_str '' [SUSPICIOUS: below class level]''
      else [])"

definition fmt_line_B :: "nat \<Rightarrow> int \<Rightarrow> int \<Rightarrow> pystr \<Rightarrow> pystr \<Rightarrow> pystr" where
  "fmt_line_B i change bc line_content susp =
     py_str ''Line '' @ digits i @ py_str '': '' @ fmt_plus_d change @
     py_str '' (total: '' @ str_int bc @ py_str '') - '' @ line_content @ susp"

text \<open>
  One iteration of \<open>for i, line in enumerate(lines, 1)\<close>: the new state, and whether
  the iteration ended in \<open>break\<close>. The test \<open>i > 1300\<close> stands inside the branch
  of a changed counter.
\<close>

definition body_B :: "nat \<Rightarrow> pystr \<Rightarrow> state_B \<Rightarrow> state_B \<times> bool" where
  "body_B i line st =
     (let prev_count = brace_count st;
          bc = count_chars_B line prev_count
      in if prev_count \<noteq> bc
         then (let change = bc - prev_count;
                   line_content = take 80 (strip line)
               in (st\<lparr>brace_count := bc,
                      printed := printed st @
                        [fmt_line_B i change bc line_content (suspicious bc line change)]\<rparr>,
                   i > 1300))
         else (st\<lparr>brace_count := bc\<rparr>, False))"

fun scan_B :: "nat \<Rightarrow> pystr list \<Rightarrow> state_B \<Rightarrow> state_B" where
  "scan_B i [] st = st"
| "scan_B i (line # rest) st =
     (case body_B i line st of
        (st', brk) \<Rightarrow> if brk then st' else scan_B (Suc i) rest st')"

text \<open>The states after each iteration that runs, in order.\<close>

fun states_B :: "nat \<Rightarrow> pystr list \<Rightarrow> state_B \<Rightarrow> state_B list" where
  "states_B i [] st = []"
| "states_B i (line # rest) st =
     (case body_B i line st of
        (st', brk) \<Rightarrow> st' # (if brk then [] else states_B (Suc i) rest st'))"

definition final_message_B :: "int \<Rightarrow> pystr" where
  "final_message_B bc =
     LF # py_str ''Final analysis: Expected class level = '' @ str_int expected_class_level @
     py_str '', Current = '' @ str_int bc"

definition main_B :: "pystr list \<Rightarrow> pystr list" where
  "main_B lines =
     (let st = scan_B 1 lines init_B
      in printed st @ [final_message_B (brace_count st)])"

text \<open>
  The whole script, with the calls of \<open>print\<close> where the source has them. An iteration
  goes on to the next line, leaves the loop by \<open>break\<close>, or ends the script with the
  exception \<open>print\<close> raised.
\<close>

datatype outcome = Continue | Break | Raise py_exception

definition body_B_io :: "stdout_dev \<Rightarrow> nat \<Rightarrow> pystr \<Rightarrow> state_B \<Rightarrow> state_B \<times> outcome" where
  "body_B_io wr i line st =
     (let prev_count = brace_count st;
          bc = count_chars_B line prev_count
      in if prev_count \<noteq> bc
         then (let change = bc - prev_count;
                   line_content = take 80 (strip line)
               in case py_print wr (printed st)
                         (fmt_line_B i change bc line_content (suspicious bc line change)) of
                    Inl e \<Rightarrow> (st\<lparr>brace_count := bc\<rparr>, Raise e)
                  | Inr out \<Rightarrow>
                      (st\<lparr>brace_count := bc, printed := out\<rparr>,
                       if i > 1300 then Break else Continue))
         else (st\<lparr>brace_count := bc\<rparr>, Continue))"

fun scan_B_io ::
    "stdout_dev \<Rightarrow> nat \<Rightarrow> pystr list \<Rightarrow> state_B \<Rightarrow> state_B \<times> py_exception option" where
  "scan_B_io wr i [] st = (st, None)"
| "scan_B_io wr i (line # rest) st =
     (case body_B_io wr i line st of
        (st', Continue) \<Rightarrow> scan_B_io wr (Suc i) rest st'
      | (st', Break) \<Rightarrow> (st', None)
      | (st', Raise e) \<Rightarrow> (st', Some e))"

definition script_B ::
    "(string \<Rightarrow> pystr option) \<Rightarrow> stdout_dev \<Rightarrow> filesystem \<Rightarrow>
     pystr list \<times> py_exception option" where
  "script_B dec wr fs =
     (case open_r fs path of
        Inl e \<Rightarrow> ([], Some e)
      | Inr f \<Rightarrow>
     (case read_all f of
        Inl e \<Rightarrow> ([], Some e)
      | Inr bytes \<Rightarrow>
     (case readlines dec bytes of
        Inl e \<Rightarrow> ([], Some e)
      | Inr lines \<Rightarrow>
     (case py_print wr [] (py_str ''Tracking brace imbalances:'') of
        Inl e \<Rightarrow> ([], Some e)
      | Inr out \<Rightarrow>
     (case scan_B_io wr 1 lines \<lparr>brace_count = 0, printed = out\<rparr> of
        (st, Some e) \<Rightarrow> (printed st, Some e)
      | (st, None) \<Rightarrow>
     (case py_print wr (printed st) (final_message_B (brace_count st)) of
        Inl e \<Rightarrow> (printed st, Some e)
      | Inr out' \<Rightarrow> (out', None)))))))"

section \<open>What the claims speak of\<close>

text \<open>
  The number of \<open>{\<close> minus the number of \<open>}\<close> in a text, and the net change of
  one line.
\<close>

definition brace_balance :: "pystr \<Rightarrow> int" where
  "brace_balance txt = int (count_list txt lbrace) - int (count_list txt rbrace)"

text \<open>
  The change records as the specification words them: one for each line whose net change
  is not zero, with the line number, the net change of the line, the balance of the file
  up to and including the line, and the stripped line.
\<close>

definition spec_change_records :: "pystr list \<Rightarrow> change_record list" where
  "spec_change_records lines =
     map (\<lambda>k. (Suc k, brace_balance (lines ! k), brace_balance (concat (take (Suc k) lines)),
               strip (lines ! k)))
       (filter (\<lambda>k. brace_balance (lines ! k) \<noteq> 0) [0..<length lines])"

text \<open>
  The records the specification has printed: those from line 1200 on, among the records up
  to and including the first one from line 1280 on.
\<close>

definition spec_printed_records :: "change_record list \<Rightarrow> change_record list" where
  "spec_printed_records rs =
     filter (\<lambda>r. 1200 \<le> fst r)
       (takeWhile (\<lambda>r. fst r < 1280) rs @ take 1 (dropWhile (\<lambda>r. fst r < 1280) rs))"

text \<open>
  The annotation as a reading of the specification with one expected depth has it: the
  counter above the depth on a line with \<open>func \<close> and a positive change, or below the
  depth on a line without \<open>func \<close>.
\<close>

definition spec_suspicious :: "int \<Rightarrow> int \<Rightarrow> pystr \<Rightarrow> int \<Rightarrow> bool" where
  "spec_suspicious depth bc line change =
     ((bc > depth \<and> sublist (py_str ''func '') line \<and> change > 0) \<or>
      (bc < depth \<and> \<not> sublist (py_str ''func '') line))"

text \<open>
  Printing strings one after the other, from the output \<open>out\<close> on, until a call of
  \<open>print\<close> raises: what is printed then, and the exception.
\<close>

fun emit :: "stdout_dev \<Rightarrow> pystr list \<Rightarrow> pystr list \<Rightarrow> pystr list \<times> py_exception option" where
  "emit wr out [] = (out, None)"
| "emit wr out (s # ss) =
     (case wr out s of
        Some e \<Rightarrow> (out, Some e)
      | None \<Rightarrow> emit wr (out @ [s]) ss)"

text \<open>The strings the loop of variant B prints, from line \<open>i\<close> and the counter \<open>bc\<close> on.\<close>

fun prints_B :: "nat \<Rightarrow> pystr list \<Rightarrow> int \<Rightarrow> pystr list" where
  "prints_B i [] bc = []"
| "prints_B i (line # rest) bc =
     (if brace_balance line \<noteq> 0
      then fmt_line_B i (brace_balance line) (bc + brace_balance line) (take 80 (strip line))
             (suspicious (bc + brace_balance line) line (brace_balance line)) #
           (if i > 1300 then [] else prints_B (Suc i) rest (bc + brace_balance line))
      else prints_B (Suc i) rest bc)"

text \<open>
  Devices for the examples: a standard output that takes every string, and one whose
  codec is ASCII. File systems for the examples: the file is missing, may not be opened,
  holds a byte that no UTF-8 text has, holds the two lines \<open>{\<close> and \<open>}\<close>, or holds the
  line of the letter e with an acute accent (\<open>0xC3 0xA9\<close> in UTF-8) and \<open>{\<close>.
\<close>

definition stdout_ok :: stdout_dev where
  "stdout_ok = (\<lambda>out s. None)"

definition stdout_ascii :: stdout_dev where
  "stdout_ascii = (\<lambda>out s. if list_all (\<lambda>c. c < 128) s then None else Some UnicodeEncodeError)"

definition fs_missing :: filesystem where
  "fs_missing = (\<lambda>p. Inl ENOENT)"

definition fs_unreadable :: filesystem where
  "fs_unreadable = (\<lambda>p. if p = path then Inl EACCES else Inl ENOENT)"

definition fs_undecodable :: filesystem where
  "fs_undecodable = (\<lambda>p. if p = path then Inr (Bytes [CHR 0xFF]) else Inl ENOENT)"

definition fs_open_close :: filesystem where
  "fs_open_close = (\<lambda>p. if p = path then Inr (Bytes ''{\<newline>}\<newline>'') else Inl ENOENT)"

definition fs_accent :: filesystem where
  "fs_accent =
     (\<lambda>p. if p = path then Inr (Bytes [CHR 0xC3, CHR 0xA9, CHR ''{'', CHR 0x0A]) else Inl ENOENT)"

text \<open>A file of 1295 lines for the examples, with changes at lines 5, 1251, 1252, 1293,
  1294 and 1295.\<close>

definition file_1295 :: "pystr list" where
  "file_1295 =
     replicate 4 [LF] @ [py_str ''{\<newline>''] @ replicate 1245 [LF] @
     [py_str ''  {  \<newline>'', py_str ''}\<newline>''] @ replicate 40 [LF] @
     [py_str ''{{\<newline>'', py_str ''}\<newline>'', py_str ''}\<newline>'']"

section \<open>Properties of the scans\<close>

lemma brace_balance_Nil [simp]: "brace_balance [] = 0"
  by (simp add: brace_balance_def)

lemma brace_balance_Cons:
  "brace_balance (c # cs) =
     (if c = lbrace then 1 else if c = rbrace then - 1 else 0) + brace_balance cs"
  by (simp add: brace_balance_def lbrace_def rbrace_def)

lemma brace_balance_append [simp]:
  "brace_balance (xs @ ys) = brace_balance xs + brace_balance ys"
  by (simp add: brace_balance_def)

lemma brace_balance_concat_Cons:
  "brace_balance (concat (l # ls)) = brace_balance l + brace_balance (concat ls)"
  by simp

lemma brace_balance_no_braces:
  "lbrace \<notin> set cs \<Longrightarrow> rbrace \<notin> set cs \<Longrightarrow> brace_balance cs = 0"
  by (induction cs) (auto simp: brace_balance_Cons)

lemma count_chars_A_eq:
  "count_chars_A cs (bc, ch) = (bc + brace_balance cs, ch + brace_balance cs)"
  by (induction cs arbitrary: bc ch) (simp_all add: brace_balance_Cons)

lemma count_chars_B_eq: "count_chars_B cs bc = bc + brace_balance cs"
  by (induction cs arbitrary: bc) (simp_all add: brace_balance_Cons)

lemma body_A_eq:
  "body_A i line st =
     (if brace_balance line \<noteq> 0
      then st\<lparr>brace_count := brace_count st + brace_balance line,
              line_braces := line_braces st @
                [(i, brace_balance line, brace_count st + brace_balance line, strip line)]\<rparr>
      else st)"
  by (simp add: body_A_def count_chars_A_eq)

lemma brace_count_body_A [simp]:
  "brace_count (body_A i line st) = brace_count st + brace_balance line"
  by (simp add: body_A_eq)

lemma body_B_eq:
  "body_B i line st =
     (if brace_balance line \<noteq> 0
      then (st\<lparr>brace_count := brace_count st + brace_balance line,
               printed := printed st @
                 [fmt_line_B i (brace_balance line) (brace_count st + brace_balance line)
                    (take 80 (strip line))
                    (suspicious (brace_count st + brace_balance line) line (brace_balance line))]\<rparr>,
            i > 1300)
      else (st, False))"
  by (simp add: body_B_def count_chars_B_eq Let_def)

lemma scan_A_append:
  "scan_A i (xs @ ys) st = scan_A (i + length xs) ys (scan_A i xs st)"
  by (induction xs arbitrary: i st) simp_all

lemma brace_count_scan_A:
  "brace_count (scan_A i ls st) = brace_count st + brace_balance (concat ls)"
  by (induction ls arbitrary: i st) simp_all

lemma length_states_A [simp]: "length (states_A i ls st) = length ls"
  by (induction ls arbitrary: i st) simp_all

lemma scan_A_last: "scan_A i ls st = last (st # states_A i ls st)"
  by (induction ls arbitrary: i st) simp_all

lemma states_A_nth:
  "k < length ls \<Longrightarrow>
   brace_count (states_A i ls st ! k) = brace_count st + brace_balance (concat (take (Suc k) ls))"
proof (induction ls arbitrary: i st k)
  case Nil
  then show ?case by simp
next
  case (Cons l ls)
  show ?case
  proof (cases k)
    case 0
    then show ?thesis by simp
  next
    case (Suc m)
    with Cons.prems have "m < length ls" by simp
    from Cons.IH [OF this] Suc show ?thesis by simp
  qed
qed

lemma length_states_B: "length (states_B i ls st) \<le> length ls"
  by (induction ls arbitrary: i st) (auto simp: body_B_eq)

lemma scan_B_last: "scan_B i ls st = last (st # states_B i ls st)"
  by (induction ls arbitrary: i st) (simp_all add: body_B_eq)

lemma states_B_nth:
  "k < length (states_B i ls st) \<Longrightarrow>
   brace_count (states_B i ls st ! k) = brace_count st + brace_balance (concat (take (Suc k) ls))"
proof (induction ls arbitrary: i st k)
  case Nil
  then show ?case by simp
next
  case (Cons l ls)
  show ?case
  proof (cases k)
    case 0
    then show ?thesis by (simp add: body_B_eq)
  next
    case (Suc m)
    with Cons.prems show ?thesis
      by (auto simp: body_B_eq Cons.IH split: if_splits)
  qed
qed

lemma brace_count_scan_B:
  "brace_count (scan_B i ls st) =
     brace_count st + brace_balance (concat (take (length (states_B i ls st)) ls))"
  by (induction ls arbitrary: i st) (simp_all add: body_B_eq)

lemma scan_B_cutoff:
  "k < length ls \<Longrightarrow> 1300 < i + k \<Longrightarrow> brace_balance (ls ! k) \<noteq> 0 \<Longrightarrow>
   length (states_B i ls st) \<le> Suc k \<and> scan_B i ls st = scan_B i (take (Suc k) ls) st"
proof (induction ls arbitrary: i st k)
  case Nil
  then show ?case by simp
next
  case (Cons l ls)
  show ?case
  proof (cases k)
    case 0
    with Cons.prems show ?thesis by (simp add: body_B_eq)
  next
    case (Suc m)
    with Cons.prems have m: "m < length ls" "1300 < Suc i + m" "brace_balance (ls ! m) \<noteq> 0"
      by simp_all
    show ?thesis
    proof (cases "snd (body_B i l st)")
      case True
      with Suc show ?thesis by (simp add: body_B_eq split: if_splits)
    next
      case False
      with Suc Cons.IH [OF m, of "fst (body_B i l st)"] show ?thesis
        by (simp add: case_prod_beta)
    qed
  qed
qed

lemma states_B_complete:
  "(\<And>k. k < length ls \<Longrightarrow> 1300 < i + k \<Longrightarrow> brace_balance (ls ! k) = 0) \<Longrightarrow>
   length (states_B i ls st) = length ls"
proof (induction ls arbitrary: i st)
  case Nil
  then show ?case by simp
next
  case (Cons l ls)
  have no_break: "\<not> snd (body_B i l st)"
    using Cons.prems [of 0] by (auto simp: body_B_eq)
  have "length (states_B (Suc i) ls (fst (body_B i l st))) = length ls"
  proof (rule Cons.IH)
    fix k
    assume "k < length ls" "1300 < Suc i + k"
    with Cons.prems [of "Suc k"] show "brace_balance (ls ! k) = 0" by simp
  qed
  with no_break show ?case by (simp add: case_prod_beta)
qed

lemma concat_split_lines: "concat (split_lines cur t) = cur @ t"
  by (induction t arbitrary: cur) simp_all

lemma brace_balance_universal_newlines:
  "brace_balance (universal_newlines t) = brace_balance t"
  by (induction t rule: universal_newlines.induct)
     (auto simp: brace_balance_Cons CR_def LF_def lbrace_def rbrace_def)

lemma brace_balance_text_lines: "brace_balance (concat (text_lines txt)) = brace_balance txt"
  by (simp add: text_lines_def concat_split_lines brace_balance_universal_newlines)

lemma line_braces_body_A:
  "line_braces (body_A i l st) =
     line_braces st @
     (if brace_balance l \<noteq> 0 then [(i, brace_balance l, brace_count st + brace_balance l, strip l)]
      else [])"
  by (simp add: body_A_eq)

lemma spec_change_records_snoc:
  "spec_change_records (ls @ [l]) =
     spec_change_records ls @
     (if brace_balance l \<noteq> 0
      then [(Suc (length ls), brace_balance l, brace_balance (concat (ls @ [l])), strip l)]
      else [])"
proof -
  have f: "filter (\<lambda>k. brace_balance ((ls @ [l]) ! k) \<noteq> 0) [0..<length ls] =
           filter (\<lambda>k. brace_balance (ls ! k) \<noteq> 0) [0..<length ls]"
    by (rule filter_cong) (simp_all add: nth_append)
  have m: "map (\<lambda>k. (Suc k, brace_balance ((ls @ [l]) ! k),
                     brace_balance (concat (take (Suc k) (ls @ [l]))), strip ((ls @ [l]) ! k)))
             (filter (\<lambda>k. brace_balance (ls ! k) \<noteq> 0) [0..<length ls]) =
           spec_change_records ls"
    unfolding spec_change_records_def
    by (rule map_cong) (auto simp: nth_append)
  show ?thesis
    using m by (simp add: spec_change_records_def [of "ls @ [l]"] f)
qed

lemma line_braces_scan_A: "line_braces (scan_A 1 ls init_A) = spec_change_records ls"
proof (induction ls rule: rev_induct)
  case Nil
  then show ?case by (simp add: init_A_def spec_change_records_def)
next
  case (snoc l ls)
  have "brace_count (scan_A 1 ls init_A) = brace_balance (concat ls)"
    by (simp add: brace_count_scan_A init_A_def)
  with snoc show ?case
    by (simp add: scan_A_append line_braces_body_A spec_change_records_snoc)
qed

lemma print_A_eq: "print_A rs out = out @ map fmt_record_A (spec_printed_records rs)"
proof (induction rs arbitrary: out)
  case Nil
  then show ?case by (simp add: spec_printed_records_def)
next
  case (Cons r rs)
  obtain n c t s where r: "r = (n, c, t, s)" by (cases r)
  show ?case
    using Cons.IH by (simp add: r spec_printed_records_def Let_def)
qed

lemma brace_balance_plain_replicate:
  "c \<noteq> lbrace \<Longrightarrow> c \<noteq> rbrace \<Longrightarrow> brace_balance (replicate n c) = 0"
  by (induction n) (simp_all add: brace_balance_Cons)

lemma brace_balance_LF [simp]: "brace_balance [LF] = 0"
  by (simp add: brace_balance_Cons LF_def lbrace_def rbrace_def)

lemma universal_newlines_LF: "universal_newlines (LF # t) = LF # universal_newlines t"
  by (cases t) (simp_all add: LF_def CR_def)

lemma text_lines_LF: "text_lines (LF # t) = [LF] # text_lines t"
  by (simp add: text_lines_def universal_newlines_LF)

lemma text_lines_replicate_LF: "text_lines (replicate n LF @ t) = replicate n [LF] @ text_lines t"
  by (induction n) (simp_all add: text_lines_LF)

lemma scan_B_plain_lines:
  "brace_balance l = 0 \<Longrightarrow> scan_B i (replicate n l @ rest) st = scan_B (i + n) rest st"
  by (induction n arbitrary: i) (simp_all add: body_B_eq)

lemma scan_A_plain_lines:
  "brace_balance l = 0 \<Longrightarrow> scan_A i (replicate n l @ rest) st = scan_A (i + n) rest st"
  by (induction n arbitrary: i) (simp_all add: body_A_eq)

lemma text_lines_open_close:
  "text_lines (py_str ''{\<newline>}\<newline>'') = [py_str ''{\<newline>'', py_str ''}\<newline>'']"
  by (simp add: text_lines_def py_str_def LF_def CR_def)

lemma bal_open: "brace_balance (py_str ''{\<newline>'') = 1"
  by (simp add: brace_balance_Cons py_str_def lbrace_def rbrace_def)

lemma bal_close: "brace_balance (py_str ''}\<newline>'') = - 1"
  by (simp add: brace_balance_Cons py_str_def lbrace_def rbrace_def)

lemma digits_small: "n < 10 \<Longrightarrow> digits n = [48 + n]"
  by (simp add: digits.simps)

lemma str_int_0: "str_int 0 = [48]"
  by (simp add: str_int_def digits_small)

lemma str_int_1: "str_int 1 = [49]"
  by (simp add: str_int_def digits_small)

lemma last_main_A: "last (main_A lines) = final_message_A (brace_balance (concat lines))"
  by (simp add: main_A_def Let_def brace_count_scan_A init_A_def)

lemma bal_func_g: "brace_balance (py_str ''func g() {\<newline>'') = 1"
  by (simp add: brace_balance_Cons py_str_def lbrace_def rbrace_def)

lemma scan_A_file_1295:
  "scan_A 1 file_1295 init_A =
     \<lparr>brace_count = 1,
      line_braces =
        [(5, 1, 1, py_str ''{''), (1251, 1, 2, py_str ''{''), (1252, - 1, 1, py_str ''}''),
         (1293, 2, 3, py_str ''{{''), (1294, - 1, 2, py_str ''}''), (1295, - 1, 1, py_str ''}'')]\<rparr>"
proof -
  have b: "brace_balance (py_str ''  {  \<newline>'') = 1" "brace_balance (py_str ''{{\<newline>'') = 2"
    by (simp_all add: brace_balance_Cons py_str_def lbrace_def rbrace_def)
  have s: "strip (py_str ''{\<newline>'') = py_str ''{''" "strip (py_str ''  {  \<newline>'') = py_str ''{''"
    "strip (py_str ''}\<newline>'') = py_str ''}''" "strip (py_str ''{{\<newline>'') = py_str ''{{''"
    by (simp_all add: strip_def py_str_def py_isspace_def)
  show ?thesis
    by (simp add: file_1295_def scan_A_plain_lines body_A_eq b bal_open bal_close s init_A_def)
qed

lemma main_A_file_1295:
  "main_A file_1295 =
     [py_str ''Lines with brace changes around the problematic area:'',
      py_str ''Line 1251: +1 (total: 2) - {'',
      py_str ''Line 1252: -1 (total: 1) - }'',
      py_str ''Line 1293: +2 (total: 3) - {{'',
      py_str ''Final brace count at line 1280: 1'']"
  unfolding main_A_def Let_def scan_A_file_1295
  by (simp add: fmt_record_A_def final_message_A_def fmt_plus_d_def str_int_def digits.simps)
     (simp add: py_str_def)

lemma emit_append:
  "emit wr out (xs @ ys) =
     (case emit wr out xs of (out', None) \<Rightarrow> emit wr out' ys | (out', Some e) \<Rightarrow> (out', Some e))"
  by (induction xs arbitrary: out) (simp_all split: option.splits)

lemma emit_all:
  "(\<And>n. n < length ss \<Longrightarrow> wr (out @ take n ss) (ss ! n) = None) \<Longrightarrow>
   emit wr out ss = (out @ ss, None)"
proof (induction ss arbitrary: out)
  case Nil
  then show ?case by simp
next
  case (Cons s ss)
  from Cons.prems [of 0] have first: "wr out s = None" by simp
  have "emit wr (out @ [s]) ss = ((out @ [s]) @ ss, None)"
  proof (rule Cons.IH)
    fix n
    assume "n < length ss"
    with Cons.prems [of "Suc n"] show "wr ((out @ [s]) @ take n ss) (ss ! n) = None" by simp
  qed
  with first show ?case by simp
qed

lemma emit_raise:
  "snd (emit wr out ss) = Some e \<Longrightarrow>
   \<exists>n < length ss. fst (emit wr out ss) = out @ take n ss \<and>
                   wr (out @ take n ss) (ss ! n) = Some e \<and>
                   (\<forall>m < n. wr (out @ take m ss) (ss ! m) = None)"
proof (induction ss arbitrary: out)
  case Nil
  then show ?case by simp
next
  case (Cons s ss)
  show ?case
  proof (cases "wr out s")
    case (Some e')
    with Cons.prems show ?thesis by (intro exI [of _ 0]) simp
  next
    case None
    with Cons.prems have "snd (emit wr (out @ [s]) ss) = Some e" by simp
    from Cons.IH [OF this] obtain n where n: "n < length ss"
      "fst (emit wr (out @ [s]) ss) = (out @ [s]) @ take n ss"
      "wr ((out @ [s]) @ take n ss) (ss ! n) = Some e"
      "\<forall>m < n. wr ((out @ [s]) @ take m ss) (ss ! m) = None"
      by blast
    show ?thesis
    proof (intro exI [of _ "Suc n"] conjI allI impI)
      show "Suc n < length (s # ss)" using n(1) by simp
      show "fst (emit wr out (s # ss)) = out @ take (Suc n) (s # ss)" using n(2) None by simp
      show "wr (out @ take (Suc n) (s # ss)) ((s # ss) ! Suc n) = Some e" using n(3) by simp
      fix m assume "m < Suc n"
      then show "wr (out @ take m (s # ss)) ((s # ss) ! m) = None"
        using n(4) None by (cases m) simp_all
    qed
  qed
qed

lemma print_A_io_emit:
  "print_A_io wr rs out = emit wr out (map fmt_record_A (spec_printed_records rs))"
proof (induction rs arbitrary: out)
  case Nil
  then show ?case by (simp add: spec_printed_records_def)
next
  case (Cons r rs)
  obtain n c t s where r: "r = (n, c, t, s)" by (cases r)
  show ?case
    using Cons.IH
    by (simp add: r spec_printed_records_def py_print_def split: option.splits)
qed

lemma main_A_strings:
  "main_A lines =
     py_str ''Lines with brace changes around the problematic area:'' #
     map fmt_record_A (spec_printed_records (line_braces (scan_A 1 lines init_A))) @
     [final_message_A (brace_count (scan_A 1 lines init_A))]"
  by (simp add: main_A_def Let_def print_A_eq)

lemma script_A_lines:
  "fs path = Inr (Bytes bytes) \<Longrightarrow> dec bytes = Some txt \<Longrightarrow>
   script_A dec wr fs = emit wr [] (main_A (text_lines txt))"
  unfolding main_A_strings
  by (simp add: script_A_def open_r_def read_all_def readlines_def Let_def py_print_def
        print_A_io_emit emit_append
      split: option.splits prod.splits)

lemma body_B_io_eq:
  "body_B_io wr i line st =
     (if brace_balance line \<noteq> 0
      then (case wr (printed st)
                  (fmt_line_B i (brace_balance line) (brace_count st + brace_balance line)
                     (take 80 (strip line))
                     (suspicious (brace_count st + brace_balance line) line (brace_balance line))) of
              Some e \<Rightarrow> (st\<lparr>brace_count := brace_count st + brace_balance line\<rparr>, Raise e)
            | None \<Rightarrow>
                (st\<lparr>brace_count := brace_count st + brace_balance line,
                    printed := printed st @
                      [fmt_line_B i (brace_balance line) (brace_count st + brace_balance line)
                         (take 80 (strip line))
                         (suspicious (brace_count st + brace_balance line) line
                            (brace_balance line))]\<rparr>,
                 if i > 1300 then Break else Continue))
      else (st, Continue))"
  by (simp add: body_B_io_def count_chars_B_eq Let_def py_print_def split: option.splits)

lemma printed_scan_B:
  "printed (scan_B i ls st) = printed st @ prints_B i ls (brace_count st)"
  by (induction ls arbitrary: i st) (simp_all add: body_B_eq)

lemma scan_B_io_emit:
  "(printed (fst (scan_B_io wr i ls st)), snd (scan_B_io wr i ls st)) =
     emit wr (printed st) (prints_B i ls (brace_count st))"
  by (induction ls arbitrary: i st) (simp_all add: body_B_io_eq split: option.splits)

lemma scan_B_io_state:
  "snd (scan_B_io wr i ls st) = None \<Longrightarrow>
   brace_count (fst (scan_B_io wr i ls st)) = brace_count (scan_B i ls st)"
  by (induction ls arbitrary: i st)
     (simp_all add: body_B_io_eq body_B_eq split: option.splits if_splits)

lemma main_B_strings:
  "main_B lines =
     py_str ''Tracking brace imbalances:'' # prints_B 1 lines 0 @
     [final_message_B (brace_count (scan_B 1 lines init_B))]"
  by (simp add: main_B_def Let_def printed_scan_B init_B_def)

lemma script_B_lines:
  assumes "fs path = Inr (Bytes bytes)" and "dec bytes = Some txt"
  shows "script_B dec wr fs = emit wr [] (main_B (text_lines txt))"
proof (cases "wr [] (py_str ''Tracking brace imbalances:'')")
  case (Some e)
  with assms show ?thesis
    by (simp add: script_B_def open_r_def read_all_def readlines_def py_print_def main_B_strings)
next
  case None
  let ?st0 = "\<lparr>brace_count = 0, printed = [py_str ''Tracking brace imbalances:'']\<rparr>"
  let ?ls = "text_lines txt"
  obtain stf ex where r: "scan_B_io wr 1 ?ls ?st0 = (stf, ex)"
    by (cases "scan_B_io wr 1 ?ls ?st0")
  have loop: "emit wr [py_str ''Tracking brace imbalances:''] (prints_B 1 ?ls 0) =
      (printed stf, ex)"
    using scan_B_io_emit [of wr 1 ?ls ?st0] r by simp
  have script: "script_B dec wr fs =
      (case ex of
         Some e \<Rightarrow> (printed stf, Some e)
       | None \<Rightarrow>
           (case wr (printed stf) (final_message_B (brace_count stf)) of
              Some e \<Rightarrow> (printed stf, Some e)
            | None \<Rightarrow> (printed stf @ [final_message_B (brace_count stf)], None)))"
    using assms None r
    by (simp add: script_B_def open_r_def read_all_def readlines_def py_print_def
          split: option.splits)
  have emitted: "emit wr [] (main_B ?ls) =
      (case ex of
         Some e \<Rightarrow> (printed stf, Some e)
       | None \<Rightarrow>
           (case wr (printed stf) (final_message_B (brace_count (scan_B 1 ?ls init_B))) of
              Some e \<Rightarrow> (printed stf, Some e)
            | None \<Rightarrow>
                (printed stf @ [final_message_B (brace_count (scan_B 1 ?ls init_B))], None)))"
    using None loop by (simp add: main_B_strings emit_append split: option.splits)
  show ?thesis
  proof (cases ex)
    case (Some e)
    with script emitted show ?thesis by simp
  next
    case n: None
    with r scan_B_io_state [of wr 1 ?ls ?st0]
    have "brace_count stf = brace_count (scan_B 1 ?ls init_B)"
      by (simp add: init_B_def)
    then show ?thesis by (simp only: script emitted)
  qed
qed

lemma utf8_open_close: "utf8_decode ''{\<newline>}\<newline>'' = Some (py_str ''{\<newline>}\<newline>'')"
  by (simp add: utf8_decode_def py_str_def)

lemma emit_stdout_ok: "emit stdout_ok out ss = (out @ ss, None)"
  by (induction ss arbitrary: out) (simp_all add: stdout_ok_def)

lemma main_A_open_close:
  "main_A [py_str ''{\<newline>'', py_str ''}\<newline>''] =
     [py_str ''Lines with brace changes around the problematic area:'',
      py_str ''Final brace count at line 1280: 0'']"
proof -
  have s: "strip (py_str ''{\<newline>'') = py_str ''{''" "strip (py_str ''}\<newline>'') = py_str ''}''"
    by (simp_all add: strip_def py_str_def py_isspace_def)
  show ?thesis
    by (simp add: main_A_def Let_def body_A_eq bal_open bal_close s init_A_def
          final_message_A_def str_int_def digits_small)
       (simp add: py_str_def)
qed

lemma main_B_open_close:
  "main_B [py_str ''{\<newline>'', py_str ''}\<newline>''] =
     [py_str ''Tracking brace imbalances:'',
      py_str ''Line 1: +1 (total: 1) - {'',
      py_str ''Line 2: -1 (total: 0) - } [SUSPICIOUS: below class level]'',
      py_str ''\<newline>Final analysis: Expected class level = 1, Current = 0'']"
proof -
  have s: "strip (py_str ''{\<newline>'') = py_str ''{''" "strip (py_str ''}\<newline>'') = py_str ''}''"
    by (simp_all add: strip_def py_str_def py_isspace_def)
  have f: "\<not> sublist (py_str ''func '') (py_str ''{\<newline>'')"
    "\<not> sublist (py_str ''func '') (py_str ''}\<newline>'')"
    by (simp_all add: py_str_def sublist_Cons_right)
  show ?thesis
    by (simp add: main_B_def Let_def body_B_eq bal_open bal_close s f init_B_def
          suspicious_def expected_class_level_def fmt_line_B_def fmt_plus_d_def
          final_message_B_def str_int_def digits_small)
       (simp add: py_str_def LF_def)
qed

section \<open>The claims\<close>

subsection \<open>C1: the final value of the counter\<close>

text \<open>
  C1, as amended. In variant A the final \<open>brace_count\<close> is the number of \<open>{\<close> minus the
  number of \<open>}\<close> in the whole file, for every file. In variant B it is that balance over
  the lines the loop ran on, and so over the whole file whenever no line after line 1300
  has a net change (every file of at most 1300 lines is one). Reading the file keeps the
  balance: the lines of a text, put together, have the balance of the text.
\<close>

theorem C1_final_counter:
  "brace_count (scan_A 1 lines init_A) = brace_balance (concat lines) \<and>
   brace_count (scan_B 1 lines init_B) =
     brace_balance (concat (take (length (states_B 1 lines init_B)) lines)) \<and>
   ((\<forall>l \<in> set (drop 1300 lines). brace_balance l = 0) \<longrightarrow>
      brace_count (scan_B 1 lines init_B) = brace_balance (concat lines)) \<and>
   brace_balance (concat (text_lines txt)) = brace_balance txt"
proof -
  have a: "brace_count (scan_A 1 lines init_A) = brace_balance (concat lines)"
    by (simp add: brace_count_scan_A init_A_def)
  have b: "brace_count (scan_B 1 lines init_B) =
     brace_balance (concat (take (length (states_B 1 lines init_B)) lines))"
    by (simp add: brace_count_scan_B init_B_def)
  have c: "brace_count (scan_B 1 lines init_B) = brace_balance (concat lines)"
    if quiet: "\<forall>l \<in> set (drop 1300 lines). brace_balance l = 0"
  proof -
    have "length (states_B 1 lines init_B) = length lines"
    proof (rule states_B_complete)
      fix k
      assume k: "k < length lines" "1300 < 1 + k"
      then have "lines ! k \<in> set (drop 1300 lines)"
        by (auto simp: in_set_conv_nth intro!: exI [of _ "k - 1300"])
      with quiet show "brace_balance (lines ! k) = 0" by blast
    qed
    with b show ?thesis by simp
  qed
  from a b c show ?thesis by (simp add: brace_balance_text_lines)
qed

theorem C1_final_counter_witness:
  "brace_count (scan_A 1 (py_str ''{\<newline>'' # replicate 1300 [LF]) init_A) = 1 \<and>
   brace_count (scan_B 1 (py_str ''{\<newline>'' # replicate 1300 [LF]) init_B) = 1 \<and>
   length (py_str ''{\<newline>'' # replicate 1300 [LF]) = 1301"
proof -
  let ?L = "py_str ''{\<newline>'' # replicate 1300 [LF]"
  have quiet: "\<forall>l \<in> set (drop 1300 ?L). brace_balance l = 0"
    by simp
  have whole: "brace_balance (concat ?L) = 1"
    by (simp add: bal_open concat_replicate_single brace_balance_plain_replicate
          LF_def lbrace_def rbrace_def)
  note inst = C1_final_counter [of ?L "[]"]
  from inst have "brace_count (scan_A 1 ?L init_A) = brace_balance (concat ?L)"
    by (rule conjunct1)
  moreover from inst quiet have "brace_count (scan_B 1 ?L init_B) = brace_balance (concat ?L)"
    by blast
  ultimately show ?thesis
    using whole by simp
qed

text \<open>
  C1 as it was stated fails for variant B: a file of 1300 empty lines, then \<open>{\<close>, then
  \<open>}\<close> is balanced, yet the loop leaves at line 1301 with the counter at 1.
\<close>

theorem C1_counterexample:
  "brace_balance (replicate 1300 LF @ py_str ''{\<newline>}\<newline>'') = 0 \<and>
   brace_count (scan_B 1 (text_lines (replicate 1300 LF @ py_str ''{\<newline>}\<newline>'')) init_B) = 1"
proof -
  have "brace_balance (replicate 1300 LF @ py_str ''{\<newline>}\<newline>'') =
        brace_balance (py_str ''{\<newline>}\<newline>'')"
    by (simp add: brace_balance_plain_replicate LF_def lbrace_def rbrace_def)
  also have "\<dots> = 0"
    by (simp add: brace_balance_Cons py_str_def lbrace_def rbrace_def)
  finally have whole: "brace_balance (replicate 1300 LF @ py_str ''{\<newline>}\<newline>'') = 0" .
  have "scan_B 1 (text_lines (replicate 1300 LF @ py_str ''{\<newline>}\<newline>'')) init_B =
        scan_B 1301 [py_str ''{\<newline>'', py_str ''}\<newline>''] init_B"
    by (simp add: text_lines_replicate_LF text_lines_open_close scan_B_plain_lines)
  then have "brace_count (scan_B 1 (text_lines (replicate 1300 LF @ py_str ''{\<newline>}\<newline>'')) init_B) = 1"
    by (simp add: body_B_eq bal_open init_B_def)
  with whole show ?thesis by simp
qed

subsection \<open>C2: the cutoff of variant B\<close>

text \<open>
  C2. The test \<open>i > 1300\<close> of variant B is made on the lines that change the counter.
  When line \<open>j\<close>, after line 1300, changes the counter, the loop has run on at most \<open>j\<close>
  lines, and the final state and all the output are those of the first \<open>j\<close> lines alone:
  no line after the one where the test fires is processed.
\<close>

theorem C2_cutoff:
  assumes "1300 < j" and "j \<le> length lines" and "brace_balance (lines ! (j - 1)) \<noteq> 0"
  shows "length (states_B 1 lines init_B) \<le> j \<and>
         scan_B 1 lines init_B = scan_B 1 (take j lines) init_B \<and>
         main_B lines = main_B (take j lines)"
proof -
  from assms have "j - 1 < length lines" "1300 < 1 + (j - 1)" by simp_all
  from scan_B_cutoff [OF this assms(3), of init_B] assms(1)
  have "length (states_B 1 lines init_B) \<le> j \<and>
        scan_B 1 lines init_B = scan_B 1 (take j lines) init_B"
    by simp
  then show ?thesis by (simp add: main_B_def)
qed

theorem C2_cutoff_witness:
  "(1300::nat) < 1301 \<and>
   1301 \<le> length (replicate 1300 [LF] @ [py_str ''{\<newline>'', py_str ''}\<newline>'']) \<and>
   brace_balance ((replicate 1300 [LF] @ [py_str ''{\<newline>'', py_str ''}\<newline>'']) ! (1301 - 1)) \<noteq> 0 \<and>
   length (states_B 1 (replicate 1300 [LF] @ [py_str ''{\<newline>'', py_str ''}\<newline>'']) init_B) \<le> 1301 \<and>
   main_B (replicate 1300 [LF] @ [py_str ''{\<newline>'', py_str ''}\<newline>'']) =
     main_B (replicate 1300 [LF] @ [py_str ''{\<newline>''])"
  using C2_cutoff [of 1301 "replicate 1300 [LF] @ [py_str ''{\<newline>'', py_str ''}\<newline>'']"]
  by (simp add: nth_append bal_open)

subsection \<open>C3: variant A collects, then prints\<close>

text \<open>
  C3. The scan of variant A runs on every line and leaves in \<open>line_braces\<close> exactly the
  change records of the whole file. Only then the script prints: the heading, then the
  records from line 1200 on among those up to the first record from line 1280 on (that
  record is the last one looked at, and is printed), then the message with the final
  counter. On the file of 1295 lines with changes at lines 5, 1251, 1252, 1293, 1294 and
  1295 the six records are collected and the output is, string for string, the heading,
  the records of lines 1251, 1252 and 1293, and the final message with the counter of
  the whole file.
\<close>

theorem C3_collect_then_print:
  "line_braces (scan_A 1 lines init_A) = spec_change_records lines \<and>
   length (states_A 1 lines init_A) = length lines \<and>
   main_A lines =
     [py_str ''Lines with brace changes around the problematic area:''] @
     map fmt_record_A (spec_printed_records (spec_change_records lines)) @
     [final_message_A (brace_balance (concat lines))] \<and>
   line_braces (scan_A 1 file_1295 init_A) =
     [(5, 1, 1, py_str ''{''), (1251, 1, 2, py_str ''{''), (1252, - 1, 1, py_str ''}''),
      (1293, 2, 3, py_str ''{{''), (1294, - 1, 2, py_str ''}''), (1295, - 1, 1, py_str ''}'')] \<and>
   main_A file_1295 =
     [py_str ''Lines with brace changes around the problematic area:'',
      py_str ''Line 1251: +1 (total: 2) - {'',
      py_str ''Line 1252: -1 (total: 1) - }'',
      py_str ''Line 1293: +2 (total: 3) - {{'',
      py_str ''Final brace count at line 1280: 1'']"
proof -
  have "brace_count (scan_A 1 lines init_A) = brace_balance (concat lines)"
    by (simp add: brace_count_scan_A init_A_def)
  then have general: "line_braces (scan_A 1 lines init_A) = spec_change_records lines \<and>
   length (states_A 1 lines init_A) = length lines \<and>
   main_A lines =
     [py_str ''Lines with brace changes around the problematic area:''] @
     map fmt_record_A (spec_printed_records (spec_change_records lines)) @
     [final_message_A (brace_balance (concat lines))]"
    unfolding main_A_def Let_def line_braces_scan_A print_A_eq by simp
  have "line_braces (scan_A 1 file_1295 init_A) =
     [(5, 1, 1, py_str ''{''), (1251, 1, 2, py_str ''{''), (1252, - 1, 1, py_str ''}''),
      (1293, 2, 3, py_str ''{{''), (1294, - 1, 2, py_str ''}''), (1295, - 1, 1, py_str ''}'')]"
    unfolding scan_A_file_1295 by simp
  with general main_A_file_1295 show ?thesis
    by blast
qed

subsection \<open>C4: the annotation of variant B\<close>

text \<open>
  C4, as amended. A line that changes the counter is printed with the annotation
  \<open>suspicious\<close> at its end, and the annotation is not empty exactly when the counter is
  above \<open>expected_class_level + 1\<close>, that is above 2, on a line that contains \<open>func \<close>
  and has a positive change, or the counter is below \<open>expected_class_level\<close>, that is
  below 1, on a line that does not contain \<open>func \<close>.
\<close>

theorem C4_suspicious:
  "(brace_balance line \<noteq> 0 \<longrightarrow>
      printed (fst (body_B i line st)) =
        printed st @
        [fmt_line_B i (brace_balance line) (brace_count st + brace_balance line)
           (take 80 (strip line)) [] @
         suspicious (brace_count st + brace_balance line) line (brace_balance line)]) \<and>
   (suspicious bc line change \<noteq> []) =
     ((bc > expected_class_level + 1 \<and> sublist (py_str ''func '') line \<and> change > 0) \<or>
      (bc < expected_class_level \<and> \<not> sublist (py_str ''func '') line)) \<and>
   expected_class_level = 1"
  by (simp add: body_B_eq fmt_line_B_def suspicious_def expected_class_level_def py_str_def)

theorem C4_suspicious_witness:
  "brace_balance (py_str ''func g() {\<newline>'') \<noteq> 0 \<and>
   printed (fst (body_B 4 (py_str ''func g() {\<newline>'') \<lparr>brace_count = 3, printed = []\<rparr>)) =
     [py_str ''Line 4: +1 (total: 4) - func g() { [SUSPICIOUS: function starts at wrong level]'']"
proof -
  let ?l = "py_str ''func g() {\<newline>''"
  let ?st = "\<lparr>brace_count = 3, printed = []\<rparr>"
  have s: "strip ?l = py_str ''func g() {''"
    by (simp add: strip_def py_str_def py_isspace_def)
  have f: "sublist (py_str ''func '') ?l"
    by (simp add: py_str_def sublist_Cons_right)
  have out: "fmt_line_B 4 1 4 (take 80 (py_str ''func g() {'')) [] @ suspicious 4 ?l 1 =
      py_str ''Line 4: +1 (total: 4) - func g() { [SUSPICIOUS: function starts at wrong level]''"
    by (simp add: suspicious_def expected_class_level_def f fmt_line_B_def fmt_plus_d_def
          str_int_def digits_small)
       (simp add: py_str_def)
  from C4_suspicious [of ?l 4 ?st] bal_func_g
  have "printed (fst (body_B 4 ?l ?st)) =
      [fmt_line_B 4 1 4 (take 80 (strip ?l)) [] @ suspicious 4 ?l 1]"
    by simp
  then have "printed (fst (body_B 4 ?l ?st)) =
      [py_str ''Line 4: +1 (total: 4) - func g() { [SUSPICIOUS: function starts at wrong level]'']"
    by (simp only: s out)
  with bal_func_g show ?thesis by simp
qed

text \<open>
  C4 as it was stated, with one expected depth for both tests, fails. On the file
  \<open>class A {\<close>, \<open>func f() {\<close> variant B prints both lines without annotation. With the
  depth \<open>expected_class_level\<close> the second line would be annotated (counter 2, \<open>func \<close>,
  change +1); with the depth \<open>expected_class_level + 1\<close> the first one would (counter 1,
  no \<open>func \<close>).
\<close>

theorem C4_counterexample:
  "printed (scan_B 1 [py_str ''class A {\<newline>'', py_str ''func f() {\<newline>''] init_B) =
     [py_str ''Tracking brace imbalances:'',
      py_str ''Line 1: +1 (total: 1) - class A {'',
      py_str ''Line 2: +1 (total: 2) - func f() {''] \<and>
   spec_suspicious expected_class_level 2 (py_str ''func f() {\<newline>'') 1 \<and>
   spec_suspicious (expected_class_level + 1) 1 (py_str ''class A {\<newline>'') 1"
proof -
  let ?c = "py_str ''class A {\<newline>''"
  let ?f = "py_str ''func f() {\<newline>''"
  have bc: "brace_balance ?c = 1" and bf: "brace_balance ?f = 1"
    by (simp_all add: brace_balance_Cons py_str_def lbrace_def rbrace_def)
  have sc: "strip ?c = py_str ''class A {''" and sf: "strip ?f = py_str ''func f() {''"
    by (simp_all add: strip_def py_str_def py_isspace_def)
  have fc: "\<not> sublist (py_str ''func '') ?c" and ff: "sublist (py_str ''func '') ?f"
    by (simp_all add: py_str_def sublist_Cons_right)
  have "printed (scan_B 1 [?c, ?f] init_B) =
     [py_str ''Tracking brace imbalances:'',
      py_str ''Line 1: +1 (total: 1) - class A {'',
      py_str ''Line 2: +1 (total: 2) - func f() {'']"
    by (simp add: body_B_eq bc bf sc sf fc ff init_B_def suspicious_def expected_class_level_def
          fmt_line_B_def fmt_plus_d_def str_int_def digits_small)
       (simp add: py_str_def)
  then show ?thesis
    by (simp add: spec_suspicious_def expected_class_level_def fc ff)
qed

subsection \<open>C5: the invariant of the scan\<close>

text \<open>
  C5. In both variants the counter after the loop has run on line \<open>k + 1\<close> is the number of
  \<open>{\<close> minus the number of \<open>}\<close> in the lines 1 to \<open>k + 1\<close>, for every line the loop runs
  on; the final state is the last of these states. A character \<open>{\<close> adds exactly 1 to the
  counter, a character \<open>}\<close> takes exactly 1 off, and any other character leaves it.
\<close>

theorem C5_invariant:
  "(k < length lines \<longrightarrow>
      brace_count (states_A 1 lines init_A ! k) = brace_balance (concat (take (Suc k) lines))) \<and>
   (k < length (states_B 1 lines init_B) \<longrightarrow>
      brace_count (states_B 1 lines init_B ! k) = brace_balance (concat (take (Suc k) lines))) \<and>
   scan_A 1 lines init_A = last (init_A # states_A 1 lines init_A) \<and>
   scan_B 1 lines init_B = last (init_B # states_B 1 lines init_B) \<and>
   fst (count_chars_A (cs @ [c]) (bc, ch)) =
     fst (count_chars_A cs (bc, ch)) + (if c = lbrace then 1 else if c = rbrace then - 1 else 0) \<and>
   count_chars_B (cs @ [c]) bc =
     count_chars_B cs bc + (if c = lbrace then 1 else if c = rbrace then - 1 else 0)"
proof -
  have a: "k < length lines \<longrightarrow>
      brace_count (states_A 1 lines init_A ! k) = brace_balance (concat (take (Suc k) lines))"
    by (simp add: states_A_nth init_A_def)
  have b: "k < length (states_B 1 lines init_B) \<longrightarrow>
      brace_count (states_B 1 lines init_B ! k) = brace_balance (concat (take (Suc k) lines))"
    by (simp add: states_B_nth init_B_def)
  have c: "fst (count_chars_A (cs @ [c]) (bc, ch)) =
     fst (count_chars_A cs (bc, ch)) + (if c = lbrace then 1 else if c = rbrace then - 1 else 0)"
    by (simp add: count_chars_A_eq brace_balance_Cons)
  have d: "count_chars_B (cs @ [c]) bc =
     count_chars_B cs bc + (if c = lbrace then 1 else if c = rbrace then - 1 else 0)"
    by (simp add: count_chars_B_eq brace_balance_Cons)
  from a b c d scan_A_last [of 1 lines init_A] scan_B_last [of 1 lines init_B]
  show ?thesis by blast
qed

theorem C5_invariant_witness:
  "brace_count (states_A 1 [py_str ''{\<newline>'', py_str ''}\<newline>''] init_A ! 1) = 0 \<and>
   length (states_B 1 [py_str ''{\<newline>'', py_str ''}\<newline>''] init_B) = 2 \<and>
   brace_count (states_B 1 [py_str ''{\<newline>'', py_str ''}\<newline>''] init_B ! 1) = 0"
proof -
  let ?L = "[py_str ''{\<newline>'', py_str ''}\<newline>'']"
  have len: "length (states_B 1 ?L init_B) = 2"
    by (simp add: body_B_eq bal_open bal_close init_B_def)
  have whole: "brace_balance (concat (take (Suc 1) ?L)) = 0"
    by (simp add: bal_open bal_close)
  note inst = C5_invariant [of 1 ?L]
  from inst have "brace_count (states_A 1 ?L init_A ! 1) = brace_balance (concat (take (Suc 1) ?L))"
    by simp
  moreover from inst len
  have "brace_count (states_B 1 ?L init_B ! 1) = brace_balance (concat (take (Suc 1) ?L))"
    by simp
  ultimately show ?thesis
    using len whole by simp
qed

subsection \<open>C6: the final message of variant A\<close>

text \<open>
  C6. The last string variant A prints is \<open>Final brace count at line 1280: \<close> followed by
  the balance of the whole file: the scan runs on every line, and \<open>break\<close> leaves the
  printing loop only. It is not the counter as of line 1280: some file has another value
  there.
\<close>

theorem C6_final_message:
  "last (main_A lines) =
     py_str ''Final brace count at line 1280: '' @ str_int (brace_balance (concat lines)) \<and>
   length (states_A 1 lines init_A) = length lines \<and>
   (\<exists>ls. last (main_A ls) \<noteq>
      py_str ''Final brace count at line 1280: '' @
      str_int (brace_balance (concat (take 1280 ls))))"
proof -
  let ?ls = "replicate 1280 [LF] @ [py_str ''{\<newline>'']"
  have "brace_balance (concat ?ls) = 1"
    by (simp add: bal_open concat_replicate_single brace_balance_plain_replicate
          LF_def lbrace_def rbrace_def)
  then have after: "last (main_A ?ls) = py_str ''Final brace count at line 1280: '' @ str_int 1"
    by (simp only: last_main_A final_message_A_def)
  have "brace_balance (concat (take 1280 ?ls)) = 0"
    by (simp add: concat_replicate_single brace_balance_plain_replicate
          LF_def lbrace_def rbrace_def)
  then have "last (main_A ?ls) \<noteq>
      py_str ''Final brace count at line 1280: '' @
      str_int (brace_balance (concat (take 1280 ?ls)))"
    using after by (simp add: str_int_0 str_int_1)
  then have "\<exists>ls. last (main_A ls) \<noteq>
      py_str ''Final brace count at line 1280: '' @
      str_int (brace_balance (concat (take 1280 ls)))" ..
  then show ?thesis
    by (simp add: last_main_A final_message_A_def)
qed

subsection \<open>C7 and C8: two literal inputs\<close>

text \<open>
  C7. The file \<open>{\n}\n\<close> is read as the lines \<open>{\n\<close> and \<open>}\n\<close>; the counter after each
  line is 1, then 0, and the final counter is 0, in both variants.
\<close>

theorem C7_open_close:
  "readlines utf8_decode ''{\<newline>}\<newline>'' = Inr [py_str ''{\<newline>'', py_str ''}\<newline>''] \<and>
   map brace_count (states_A 1 [py_str ''{\<newline>'', py_str ''}\<newline>''] init_A) = [1, 0] \<and>
   brace_count (scan_A 1 [py_str ''{\<newline>'', py_str ''}\<newline>''] init_A) = 0 \<and>
   map brace_count (states_B 1 [py_str ''{\<newline>'', py_str ''}\<newline>''] init_B) = [1, 0] \<and>
   brace_count (scan_B 1 [py_str ''{\<newline>'', py_str ''}\<newline>''] init_B) = 0"
proof -
  have "utf8_decode ''{\<newline>}\<newline>'' = Some (py_str ''{\<newline>}\<newline>'')"
    by (simp add: utf8_decode_def py_str_def)
  then have "readlines utf8_decode ''{\<newline>}\<newline>'' = Inr [py_str ''{\<newline>'', py_str ''}\<newline>'']"
    by (simp add: readlines_def text_lines_open_close)
  then show ?thesis
    by (simp add: body_B_eq bal_open bal_close init_A_def init_B_def)
qed

text \<open>
  C8. The file \<open>{{\n\<close> is read as one line, and exactly one change record is made: line 1,
  change +2, counter 2. Variant B prints the same line.
\<close>

theorem C8_double_open:
  "readlines utf8_decode ''{{\<newline>'' = Inr [py_str ''{{\<newline>''] \<and>
   line_braces (scan_A 1 [py_str ''{{\<newline>''] init_A) = [(1, 2, 2, py_str ''{{'')] \<and>
   printed (scan_B 1 [py_str ''{{\<newline>''] init_B) =
     [py_str ''Tracking brace imbalances:'', py_str ''Line 1: +2 (total: 2) - {{'']"
proof -
  have "utf8_decode ''{{\<newline>'' = Some (py_str ''{{\<newline>'')"
    by (simp add: utf8_decode_def py_str_def)
  then have r: "readlines utf8_decode ''{{\<newline>'' = Inr [py_str ''{{\<newline>'']"
    by (simp add: readlines_def text_lines_def py_str_def LF_def CR_def)
  have b: "brace_balance (py_str ''{{\<newline>'') = 2"
    by (simp add: brace_balance_Cons py_str_def lbrace_def rbrace_def)
  have s: "strip (py_str ''{{\<newline>'') = py_str ''{{''"
    by (simp add: strip_def py_str_def py_isspace_def)
  have nf: "\<not> sublist (py_str ''func '') (py_str ''{{\<newline>'')"
    by (simp add: py_str_def sublist_Cons_right)
  have a: "line_braces (scan_A 1 [py_str ''{{\<newline>''] init_A) = [(1, 2, 2, py_str ''{{'')]"
    by (simp add: body_A_eq b s init_A_def)
  have p: "printed (scan_B 1 [py_str ''{{\<newline>''] init_B) =
     [py_str ''Tracking brace imbalances:'', py_str ''Line 1: +2 (total: 2) - {{'']"
    by (simp add: body_B_eq b s nf init_B_def suspicious_def expected_class_level_def
          fmt_line_B_def fmt_plus_d_def str_int_def digits_small)
       (simp add: py_str_def)
  from r a p show ?thesis by simp
qed

subsection \<open>C9: a line without braces\<close>

text \<open>
  C9. A line with no \<open>{\<close> and no \<open>}\<close> leaves the state of variant A as it is (the counter
  and the list of change records), and in variant B leaves the counter and the output as
  they are, without \<open>break\<close>.
\<close>

theorem C9_plain_line:
  assumes "lbrace \<notin> set line" and "rbrace \<notin> set line"
  shows "body_A i line st = st \<and> body_B i line stb = (stb, False) \<and>
         count_chars_B line bc = bc \<and> count_chars_A line (bc, 0) = (bc, 0)"
  using brace_balance_no_braces [OF assms]
  by (simp add: body_A_eq body_B_eq count_chars_A_eq count_chars_B_eq)

theorem C9_plain_line_witness:
  "lbrace \<notin> set (py_str ''let x = 1\<newline>'') \<and> rbrace \<notin> set (py_str ''let x = 1\<newline>'') \<and>
   body_A 7 (py_str ''let x = 1\<newline>'') init_A = init_A \<and>
   body_B 7 (py_str ''let x = 1\<newline>'') init_B = (init_B, False)"
proof -
  have h: "lbrace \<notin> set (py_str ''let x = 1\<newline>'')" "rbrace \<notin> set (py_str ''let x = 1\<newline>'')"
    by (simp_all add: py_str_def lbrace_def rbrace_def)
  from C9_plain_line [OF h, of 7 init_A init_B] h show ?thesis by simp
qed

subsection \<open>C10: errors\<close>

text \<open>
  C10, as amended. When the file cannot be opened (it is missing, or may not be read),
  \<open>open\<close> raises an \<open>OSError\<close> and each script ends with it, nothing printed. That is not
  the only error. When the file opens and reading it fails, \<open>readlines\<close> raises an
  \<open>OSError\<close>; when its bytes are not valid in the codec, \<open>readlines\<close> raises
  \<open>UnicodeDecodeError\<close>, which is no \<open>OSError\<close>; each script ends with it, nothing
  printed. When the file opens and decodes, each script prints its strings one after the
  other, and a call of \<open>print\<close> that raises (\<open>UnicodeEncodeError\<close>, which is no
  \<open>OSError\<close>, or an \<open>OSError\<close> of the stream) ends the script with that exception, after
  the strings printed before it. When every call of \<open>print\<close> returns, the script runs to
  its end and raises nothing.
\<close>

theorem C10_errors:
  "(fs path = Inl e \<longrightarrow>
      script_A dec wr fs = ([], Some (OSError e)) \<and>
      script_B dec wr fs = ([], Some (OSError e))) \<and>
   (fs path = Inr (Read_fails e) \<longrightarrow>
      script_A dec wr fs = ([], Some (OSError e)) \<and>
      script_B dec wr fs = ([], Some (OSError e))) \<and>
   (fs path = Inr (Bytes bytes) \<and> dec bytes = None \<longrightarrow>
      script_A dec wr fs = ([], Some UnicodeDecodeError) \<and>
      script_B dec wr fs = ([], Some UnicodeDecodeError)) \<and>
   (fs path = Inr (Bytes bytes) \<and> dec bytes = Some txt \<longrightarrow>
      script_A dec wr fs = emit wr [] (main_A (text_lines txt)) \<and>
      script_B dec wr fs = emit wr [] (main_B (text_lines txt))) \<and>
   ((\<forall>n < length ss. wr (take n ss) (ss ! n) = None) \<longrightarrow> emit wr [] ss = (ss, None)) \<and>
   (snd (emit wr [] ss) = Some x \<longrightarrow>
      (\<exists>n < length ss. fst (emit wr [] ss) = take n ss \<and> wr (take n ss) (ss ! n) = Some x \<and>
                      (\<forall>m < n. wr (take m ss) (ss ! m) = None))) \<and>
   is_OSError (OSError e) \<and> \<not> is_OSError UnicodeDecodeError \<and> \<not> is_OSError UnicodeEncodeError"
proof -
  have open_fails: "fs path = Inl e \<longrightarrow>
      script_A dec wr fs = ([], Some (OSError e)) \<and>
      script_B dec wr fs = ([], Some (OSError e))"
    by (simp add: script_A_def script_B_def open_r_def)
  have read_fails: "fs path = Inr (Read_fails e) \<longrightarrow>
      script_A dec wr fs = ([], Some (OSError e)) \<and>
      script_B dec wr fs = ([], Some (OSError e))"
    by (simp add: script_A_def script_B_def open_r_def read_all_def)
  have decode_fails: "fs path = Inr (Bytes bytes) \<and> dec bytes = None \<longrightarrow>
      script_A dec wr fs = ([], Some UnicodeDecodeError) \<and>
      script_B dec wr fs = ([], Some UnicodeDecodeError)"
    by (simp add: script_A_def script_B_def open_r_def read_all_def readlines_def)
  have prints: "fs path = Inr (Bytes bytes) \<and> dec bytes = Some txt \<longrightarrow>
      script_A dec wr fs = emit wr [] (main_A (text_lines txt)) \<and>
      script_B dec wr fs = emit wr [] (main_B (text_lines txt))"
    using script_A_lines [of fs bytes dec "txt" wr] script_B_lines [of fs bytes dec "txt" wr]
    by blast
  have all_printed: "(\<forall>n < length ss. wr (take n ss) (ss ! n) = None) \<longrightarrow>
      emit wr [] ss = (ss, None)"
    using emit_all [of ss wr "[]"] by simp
  have raised: "snd (emit wr [] ss) = Some x \<longrightarrow>
      (\<exists>n < length ss. fst (emit wr [] ss) = take n ss \<and> wr (take n ss) (ss ! n) = Some x \<and>
                      (\<forall>m < n. wr (take m ss) (ss ! m) = None))"
    using emit_raise [of wr "[]" ss x] by simp
  from open_fails read_fails decode_fails prints all_printed raised show ?thesis
    by simp
qed

theorem C10_errors_witness:
  "script_A utf8_decode stdout_ok fs_missing = ([], Some (OSError ENOENT)) \<and>
   script_B utf8_decode stdout_ok fs_unreadable = ([], Some (OSError EACCES)) \<and>
   script_A utf8_decode stdout_ok fs_open_close =
     ([py_str ''Lines with brace changes around the problematic area:'',
       py_str ''Final brace count at line 1280: 0''], None) \<and>
   script_B utf8_decode stdout_ok fs_open_close =
     ([py_str ''Tracking brace imbalances:'',
       py_str ''Line 1: +1 (total: 1) - {'',
       py_str ''Line 2: -1 (total: 0) - } [SUSPICIOUS: below class level]'',
       py_str ''\<newline>Final analysis: Expected class level = 1, Current = 0''], None)"
proof -
  have missing: "fs_missing path = Inl ENOENT"
    by (simp add: fs_missing_def)
  have unreadable: "fs_unreadable path = Inl EACCES"
    by (simp add: fs_unreadable_def)
  have there: "fs_open_close path = Inr (Bytes ''{\<newline>}\<newline>'')"
    by (simp add: fs_open_close_def)
  from C10_errors [where fs = fs_missing and e = ENOENT and dec = utf8_decode and wr = stdout_ok]
    missing
  have a: "script_A utf8_decode stdout_ok fs_missing = ([], Some (OSError ENOENT))"
    by blast
  from C10_errors [where fs = fs_unreadable and e = EACCES and dec = utf8_decode
      and wr = stdout_ok] unreadable
  have b: "script_B utf8_decode stdout_ok fs_unreadable = ([], Some (OSError EACCES))"
    by blast
  from C10_errors [where fs = fs_open_close and dec = utf8_decode and wr = stdout_ok
      and bytes = "''{\<newline>}\<newline>''" and ?txt = "py_str ''{\<newline>}\<newline>''"] there utf8_open_close
  have "script_A utf8_decode stdout_ok fs_open_close =
          emit stdout_ok [] (main_A (text_lines (py_str ''{\<newline>}\<newline>''))) \<and>
        script_B utf8_decode stdout_ok fs_open_close =
          emit stdout_ok [] (main_B (text_lines (py_str ''{\<newline>}\<newline>'')))"
    by blast
  then have c: "script_A utf8_decode stdout_ok fs_open_close =
          (main_A [py_str ''{\<newline>'', py_str ''}\<newline>''], None) \<and>
        script_B utf8_decode stdout_ok fs_open_close =
          (main_B [py_str ''{\<newline>'', py_str ''}\<newline>''], None)"
    by (simp add: emit_stdout_ok text_lines_open_close)
  from a b c show ?thesis
    by (simp only: main_A_open_close main_B_open_close)
qed

text \<open>
  C10 as it was stated fails twice. A file that exists and may be read, holding the byte
  \<open>0xFF\<close>, ends both scripts under the UTF-8 codec with an exception that \<open>open\<close> did not
  raise and that is no \<open>OSError\<close>. A file holding, in UTF-8, a line with an accented
  letter and \<open>{\<close> ends variant B on a standard output whose codec is ASCII with
  \<open>UnicodeEncodeError\<close>, raised by \<open>print\<close> after the heading was printed.
\<close>

theorem C10_counterexample:
  "fs_undecodable path = Inr (Bytes [CHR 0xFF]) \<and>
   script_A utf8_decode stdout_ok fs_undecodable = ([], Some UnicodeDecodeError) \<and>
   script_B utf8_decode stdout_ok fs_undecodable = ([], Some UnicodeDecodeError) \<and>
   \<not> is_OSError UnicodeDecodeError \<and>
   fs_accent path = Inr (Bytes [CHR 0xC3, CHR 0xA9, CHR ''{'', CHR 0x0A]) \<and>
   script_B utf8_decode stdout_ascii fs_accent =
     ([py_str ''Tracking brace imbalances:''], Some UnicodeEncodeError) \<and>
   \<not> is_OSError UnicodeEncodeError"
proof -
  have undecodable: "script_A utf8_decode stdout_ok fs_undecodable = ([], Some UnicodeDecodeError)"
    "script_B utf8_decode stdout_ok fs_undecodable = ([], Some UnicodeDecodeError)"
    by (simp_all add: fs_undecodable_def script_A_def script_B_def open_r_def read_all_def
          readlines_def utf8_decode_def)
  have lines: "readlines utf8_decode [CHR 0xC3, CHR 0xA9, CHR ''{'', CHR 0x0A] =
      Inr [[233, 123, 10]]"
    by (simp add: readlines_def utf8_decode_def cont_def text_lines_def LF_def CR_def)
  have hdr: "stdout_ascii [] (py_str ''Tracking brace imbalances:'') = None"
    by (simp add: stdout_ascii_def py_str_def)
  have bal: "brace_balance [233, 123, 10] = 1"
    by (simp add: brace_balance_Cons lbrace_def rbrace_def)
  have line: "stdout_ascii out (fmt_line_B i c t (take 80 (strip [233, 123, 10])) a) =
      Some UnicodeEncodeError" for out i c t a
    by (simp add: stdout_ascii_def fmt_line_B_def strip_def py_isspace_def)
  have "script_B utf8_decode stdout_ascii fs_accent =
     ([py_str ''Tracking brace imbalances:''], Some UnicodeEncodeError)"
    by (simp add: fs_accent_def script_B_def open_r_def read_all_def lines py_print_def hdr
          body_B_io_eq bal line)
  with undecodable show ?thesis
    by (simp add: fs_undecodable_def fs_accent_def)
qed

end
